theory Spec2Isabelle
  imports Main "HOL-Library.Word"
begin

unbundle bit_operations_syntax

section \<open>Data of the TSDF server\<close>

text \<open>
  The model follows \<^verbatim>\<open>voxblox_ros/src/tsdf_server.cc\<close>.

  \<^item> \<^verbatim>\<open>ros::Time\<close> and \<^verbatim>\<open>ros::Duration\<close> are integers counting nanoseconds; their
    subtraction and comparison are the ones of the integers.
  \<^item> A \<^verbatim>\<open>float\<close> is its IEEE-754 binary32 bit pattern; \<^verbatim>\<open>std::isfinite\<close> holds when
    the eight exponent bits are not all set.
  \<^item> The collaborators that live outside the file (transformer, PCL conversion, TSDF
    integrator, mesh integrator, PLY writer, layer I/O, the two layer containers) are
    the fields of a record of functions that every operation takes as its first argument.
    The types of a transformation, of the integrator's own state, of the TSDF layer and
    of the mesh layer are the type parameters \<open>'T\<close>, \<open>'I\<close>, \<open>'L\<close> and \<open>'M\<close>.
  \<^item> Every call of a collaborator that looks up a transformation, integrates, meshes,
    publishes or touches a file is appended to the field \<open>calls\<close> of the server, in
    program order; the file system is written by \<^verbatim>\<open>outputMeshLayerAsPly\<close> and
    \<^verbatim>\<open>io::SaveLayer\<close> only, so the field records every file the server writes.
  \<^item> The two function-local \<^verbatim>\<open>static ros::Time last_msg_time\<close> variables are the fields
    \<open>last_msg_time\<close> (of \<^verbatim>\<open>insertPointcloud\<close>) and \<open>last_msg_time_freespace\<close>
    (of \<^verbatim>\<open>insertFreespacePointcloud\<close>).
  \<^item> Logging (\<^verbatim>\<open>ROS_INFO\<close>) and the \<^verbatim>\<open>timing::Timer\<close> instrumentation are left out.
\<close>

type_synonym time = int
type_synonym float32 = "32 word"
type_synonym uint8 = "8 word"

definition isfinite :: "float32 \<Rightarrow> bool" where
  "isfinite f \<longleftrightarrow> (drop_bit 23 f) AND 0xFF \<noteq> 0xFF"

record PointXYZRGB =
  pt_x :: float32
  pt_y :: float32
  pt_z :: float32
  pt_r :: uint8
  pt_g :: uint8
  pt_b :: uint8
  pt_a :: uint8

datatype Point = Point float32 float32 float32
datatype Color = Color uint8 uint8 uint8 uint8

type_synonym Pointcloud = "Point list"
type_synonym Colors = "Color list"

record PointField =
  field_name :: string
  field_datatype :: uint8

definition FLOAT32 :: uint8 where
  "FLOAT32 = 7"

record FilePath_Request =
  file_path :: string

record PointCloud2 =
  header_stamp :: time
  header_frame_id :: string
  msg_fields :: "PointField list"
  msg_data :: "uint8 list"

datatype ColorMode = kColor | kHeight | kNormals | kLambert | kLambertColor | kGray

datatype BlockMergingStrategy = kProhibit | kReplace | kDiscard | kMerge

datatype ('T, 'L, 'M) call =
    LookupTransform string string time
  | IntegratePointCloud 'T Pointcloud Colors bool
  | NewPoseCallback 'T
  | PublishTsdfPointcloud 'L string
  | PublishSurfacePointcloud 'L string
  | PublishOccupiedNodes 'L string
  | PublishSlice 'L string
  | MeshGenerate bool bool
  | PublishMesh 'M ColorMode string
  | OutputMeshLayerAsPly string 'M bool
  | SaveLayer 'L string bool
  | LoadBlocksFromFile string BlockMergingStrategy bool

record ('T, 'I, 'L, 'M) collaborators =
  transformer_lookupTransform :: "string \<Rightarrow> string \<Rightarrow> time \<Rightarrow> 'T option"
  pcl_fromROSMsg :: "PointCloud2 \<Rightarrow> PointXYZRGB list"
  tsdf_integrator_integratePointCloud ::
    "'T \<Rightarrow> Pointcloud \<Rightarrow> Colors \<Rightarrow> bool \<Rightarrow> 'I \<Rightarrow> 'L \<Rightarrow> 'I \<times> 'L"
  mesh_integrator_generateMesh :: "bool \<Rightarrow> bool \<Rightarrow> 'L \<Rightarrow> 'M \<Rightarrow> 'L \<times> 'M"
  io_outputMeshLayerAsPly :: "string \<Rightarrow> 'M \<Rightarrow> bool"
  io_SaveLayer :: "'L \<Rightarrow> string \<Rightarrow> bool"
  io_LoadBlocksFromFile :: "string \<Rightarrow> BlockMergingStrategy \<Rightarrow> 'L \<Rightarrow> bool \<times> 'L"
  layer_removeAllBlocks :: "'L \<Rightarrow> 'L"
  mesh_layer_clear :: "'M \<Rightarrow> 'M"

record ('T, 'I, 'L, 'M) TsdfServer =
  verbose :: bool
  world_frame :: string
  use_freespace_pointcloud :: bool
  publish_tsdf_info :: bool
  publish_slices :: bool
  min_time_between_msgs :: time
  mesh_filename :: string
  color_mode :: ColorMode
  last_msg_time :: time
  last_msg_time_freespace :: time
  tsdf_integrator :: 'I
  tsdf_layer :: 'L
  mesh_layer :: 'M
  calls :: "('T, 'L, 'M) call list"

section \<open>Ingestion of point clouds\<close>

text \<open>
  The loop of \<^verbatim>\<open>processPointCloudMessageAndInsert\<close> over the converted PCL cloud:
  index \<open>i\<close> runs from 0 to the size of the cloud, a sample with a non-finite coordinate
  is skipped (\<^verbatim>\<open>continue\<close>), any other is appended (\<^verbatim>\<open>push_back\<close>) to both arrays.
\<close>

function sanitize_loop ::
  "PointXYZRGB list \<Rightarrow> nat \<Rightarrow> Pointcloud \<times> Colors \<Rightarrow> Pointcloud \<times> Colors" where
  "sanitize_loop pointcloud_pcl i (points_C, colors) =
     (if i < length pointcloud_pcl then
        (if \<not> isfinite (pt_x (pointcloud_pcl ! i)) \<or>
            \<not> isfinite (pt_y (pointcloud_pcl ! i)) \<or>
            \<not> isfinite (pt_z (pointcloud_pcl ! i))
         then sanitize_loop pointcloud_pcl (i + 1) (points_C, colors)
         else sanitize_loop pointcloud_pcl (i + 1)
                (points_C @ [Point (pt_x (pointcloud_pcl ! i)) (pt_y (pointcloud_pcl ! i))
                                   (pt_z (pointcloud_pcl ! i))],
                 colors @ [Color (pt_r (pointcloud_pcl ! i)) (pt_g (pointcloud_pcl ! i))
                                 (pt_b (pointcloud_pcl ! i)) (pt_a (pointcloud_pcl ! i))]))
      else (points_C, colors))"
  by pat_completeness auto
termination
  by (relation "measure (\<lambda>(pointcloud_pcl, i, acc). length pointcloud_pcl - i)") auto

definition sanitize :: "PointXYZRGB list \<Rightarrow> Pointcloud \<times> Colors" where
  "sanitize pointcloud_pcl = sanitize_loop pointcloud_pcl 0 ([], [])"

text \<open>The loop that forces the datatype of every field named \<^verbatim>\<open>rgb\<close> to FLOAT32.\<close>

definition fix_rgb_fields :: "PointField list \<Rightarrow> PointField list" where
  "fix_rgb_fields fs =
     map (\<lambda>f. if field_name f = ''rgb'' then f\<lparr>field_datatype := FLOAT32\<rparr> else f) fs"

definition record_call ::
  "('T, 'L, 'M) call \<Rightarrow> ('T, 'I, 'L, 'M) TsdfServer \<Rightarrow> ('T, 'I, 'L, 'M) TsdfServer" where
  "record_call c s = s\<lparr>calls := calls s @ [c]\<rparr>"

definition integratePointcloud ::
  "('T, 'I, 'L, 'M) collaborators \<Rightarrow> 'T \<Rightarrow> Pointcloud \<Rightarrow> Colors \<Rightarrow> bool \<Rightarrow>
   ('T, 'I, 'L, 'M) TsdfServer \<Rightarrow> ('T, 'I, 'L, 'M) TsdfServer" where
  "integratePointcloud env T_G_C ptcloud_C colors is_freespace_pointcloud s =
     (case tsdf_integrator_integratePointCloud env T_G_C ptcloud_C colors
             is_freespace_pointcloud (tsdf_integrator s) (tsdf_layer s) of
        (integ, layer) \<Rightarrow>
          record_call (IntegratePointCloud T_G_C ptcloud_C colors is_freespace_pointcloud)
            (s\<lparr>tsdf_integrator := integ, tsdf_layer := layer\<rparr>))"

definition processPointCloudMessageAndInsert ::
  "('T, 'I, 'L, 'M) collaborators \<Rightarrow> PointCloud2 \<Rightarrow> bool \<Rightarrow>
   ('T, 'I, 'L, 'M) TsdfServer \<Rightarrow> ('T, 'I, 'L, 'M) TsdfServer" where
  "processPointCloudMessageAndInsert env pointcloud_msg is_freespace_pointcloud s =
     (let s1 = record_call (LookupTransform (header_frame_id pointcloud_msg) (world_frame s)
                              (header_stamp pointcloud_msg)) s
      in case transformer_lookupTransform env (header_frame_id pointcloud_msg)
                (world_frame s) (header_stamp pointcloud_msg) of
           None \<Rightarrow> s1
         | Some T_G_C \<Rightarrow>
             (case sanitize (pcl_fromROSMsg env
                      (pointcloud_msg\<lparr>msg_fields := fix_rgb_fields (msg_fields pointcloud_msg)\<rparr>)) of
                (points_C, colors) \<Rightarrow>
                  record_call (NewPoseCallback T_G_C)
                    (integratePointcloud env T_G_C points_C colors
                       is_freespace_pointcloud s1)))"

definition publishAllUpdatedTsdfVoxels ::
  "('T, 'I, 'L, 'M) TsdfServer \<Rightarrow> ('T, 'I, 'L, 'M) TsdfServer" where
  "publishAllUpdatedTsdfVoxels s =
     record_call (PublishTsdfPointcloud (tsdf_layer s) (world_frame s)) s"

definition publishTsdfSurfacePoints ::
  "('T, 'I, 'L, 'M) TsdfServer \<Rightarrow> ('T, 'I, 'L, 'M) TsdfServer" where
  "publishTsdfSurfacePoints s =
     record_call (PublishSurfacePointcloud (tsdf_layer s) (world_frame s)) s"

definition publishTsdfOccupiedNodes ::
  "('T, 'I, 'L, 'M) TsdfServer \<Rightarrow> ('T, 'I, 'L, 'M) TsdfServer" where
  "publishTsdfOccupiedNodes s =
     record_call (PublishOccupiedNodes (tsdf_layer s) (world_frame s)) s"

definition publishSlices ::
  "('T, 'I, 'L, 'M) TsdfServer \<Rightarrow> ('T, 'I, 'L, 'M) TsdfServer" where
  "publishSlices s = record_call (PublishSlice (tsdf_layer s) (world_frame s)) s"

text \<open>
  What \<^verbatim>\<open>insertPointcloud\<close> does after the throttle test has let the frame through and
  the watermark has been stored.
\<close>

definition insertPointcloud_admitted ::
  "('T, 'I, 'L, 'M) collaborators \<Rightarrow> PointCloud2 \<Rightarrow>
   ('T, 'I, 'L, 'M) TsdfServer \<Rightarrow> ('T, 'I, 'L, 'M) TsdfServer" where
  "insertPointcloud_admitted env pointcloud_msg s =
     (let s1 = processPointCloudMessageAndInsert env pointcloud_msg False s;
          s2 = (if publish_tsdf_info s1
                then publishTsdfOccupiedNodes
                       (publishTsdfSurfacePoints (publishAllUpdatedTsdfVoxels s1))
                else s1)
      in if publish_slices s2 then publishSlices s2 else s2)"

definition insertPointcloud ::
  "('T, 'I, 'L, 'M) collaborators \<Rightarrow> PointCloud2 \<Rightarrow>
   ('T, 'I, 'L, 'M) TsdfServer \<Rightarrow> ('T, 'I, 'L, 'M) TsdfServer" where
  "insertPointcloud env pointcloud_msg s =
     (if header_stamp pointcloud_msg - last_msg_time s < min_time_between_msgs s then s
      else insertPointcloud_admitted env pointcloud_msg
             (s\<lparr>last_msg_time := header_stamp pointcloud_msg\<rparr>))"

definition insertFreespacePointcloud ::
  "('T, 'I, 'L, 'M) collaborators \<Rightarrow> PointCloud2 \<Rightarrow>
   ('T, 'I, 'L, 'M) TsdfServer \<Rightarrow> ('T, 'I, 'L, 'M) TsdfServer" where
  "insertFreespacePointcloud env pointcloud_msg s =
     (if header_stamp pointcloud_msg - last_msg_time_freespace s < min_time_between_msgs s
      then s
      else processPointCloudMessageAndInsert env pointcloud_msg True
             (s\<lparr>last_msg_time_freespace := header_stamp pointcloud_msg\<rparr>))"

section \<open>Mesh generation and services\<close>

definition updateMesh ::
  "('T, 'I, 'L, 'M) collaborators \<Rightarrow> ('T, 'I, 'L, 'M) TsdfServer \<Rightarrow>
   ('T, 'I, 'L, 'M) TsdfServer" where
  "updateMesh env s =
     (case mesh_integrator_generateMesh env True True (tsdf_layer s) (mesh_layer s) of
        (layer, mesh) \<Rightarrow>
          (let s1 = record_call (MeshGenerate True True)
                      (s\<lparr>tsdf_layer := layer, mesh_layer := mesh\<rparr>)
           in record_call (PublishMesh (mesh_layer s1) (color_mode s1) (world_frame s1)) s1))"

definition generateMesh ::
  "('T, 'I, 'L, 'M) collaborators \<Rightarrow> ('T, 'I, 'L, 'M) TsdfServer \<Rightarrow>
   bool \<times> ('T, 'I, 'L, 'M) TsdfServer" where
  "generateMesh env s =
     (let clear_mesh = True;
          s1 = (if clear_mesh then
                  (case mesh_integrator_generateMesh env False True
                          (tsdf_layer s) (mesh_layer s) of
                     (layer, mesh) \<Rightarrow>
                       record_call (MeshGenerate False True)
                         (s\<lparr>tsdf_layer := layer, mesh_layer := mesh\<rparr>))
                else
                  (case mesh_integrator_generateMesh env True True
                          (tsdf_layer s) (mesh_layer s) of
                     (layer, mesh) \<Rightarrow>
                       record_call (MeshGenerate True True)
                         (s\<lparr>tsdf_layer := layer, mesh_layer := mesh\<rparr>)));
          s2 = record_call (PublishMesh (mesh_layer s1) (color_mode s1) (world_frame s1)) s1;
          s3 = (if mesh_filename s2 \<noteq> [] then
                  (let success = io_outputMeshLayerAsPly env (mesh_filename s2) (mesh_layer s2)
                   in record_call
                        (OutputMeshLayerAsPly (mesh_filename s2) (mesh_layer s2) success) s2)
                else s2)
      in (True, s3))"

definition generateMeshCallback ::
  "('T, 'I, 'L, 'M) collaborators \<Rightarrow> ('T, 'I, 'L, 'M) TsdfServer \<Rightarrow>
   bool \<times> ('T, 'I, 'L, 'M) TsdfServer" where
  "generateMeshCallback env s = generateMesh env s"

definition saveMapCallback ::
  "('T, 'I, 'L, 'M) collaborators \<Rightarrow> FilePath_Request \<Rightarrow> ('T, 'I, 'L, 'M) TsdfServer \<Rightarrow>
   bool \<times> ('T, 'I, 'L, 'M) TsdfServer" where
  "saveMapCallback env request s =
     (let ok = io_SaveLayer env (tsdf_layer s) (file_path request)
      in (ok, record_call (SaveLayer (tsdf_layer s) (file_path request) ok) s))"

definition loadMapCallback ::
  "('T, 'I, 'L, 'M) collaborators \<Rightarrow> FilePath_Request \<Rightarrow> ('T, 'I, 'L, 'M) TsdfServer \<Rightarrow>
   bool \<times> ('T, 'I, 'L, 'M) TsdfServer" where
  "loadMapCallback env request s =
     (case io_LoadBlocksFromFile env (file_path request) kReplace (tsdf_layer s) of
        (ok, layer) \<Rightarrow>
          (ok, record_call (LoadBlocksFromFile (file_path request) kReplace ok)
                 (s\<lparr>tsdf_layer := layer\<rparr>)))"

definition updateMeshEvent ::
  "('T, 'I, 'L, 'M) collaborators \<Rightarrow> ('T, 'I, 'L, 'M) TsdfServer \<Rightarrow>
   ('T, 'I, 'L, 'M) TsdfServer" where
  "updateMeshEvent env s = updateMesh env s"

definition clear ::
  "('T, 'I, 'L, 'M) collaborators \<Rightarrow> ('T, 'I, 'L, 'M) TsdfServer \<Rightarrow>
   ('T, 'I, 'L, 'M) TsdfServer" where
  "clear env s =
     (let s1 = s\<lparr>tsdf_layer := layer_removeAllBlocks env (tsdf_layer s)\<rparr>
      in s1\<lparr>mesh_layer := mesh_layer_clear env (mesh_layer s1)\<rparr>)"

section \<open>The server as a reactive system\<close>

text \<open>
  The constructor subscribes \<^verbatim>\<open>insertPointcloud\<close> to the primary stream,
  \<^verbatim>\<open>insertFreespacePointcloud\<close> to the freespace stream when
  \<^verbatim>\<open>use_freespace_pointcloud_\<close> is set, advertises the three services and starts the
  mesh timer. An event is one delivery by the middleware; \<open>run\<close> handles a sequence of
  them one after the other and \<open>trajectory\<close> lists the states the server goes through.
\<close>

datatype event =
    PointcloudMsg PointCloud2
  | FreespacePointcloudMsg PointCloud2
  | TimerEvent
  | GenerateMeshSrv
  | SaveMapSrv FilePath_Request
  | LoadMapSrv FilePath_Request
  | ClearCall

fun step ::
  "('T, 'I, 'L, 'M) collaborators \<Rightarrow> event \<Rightarrow> ('T, 'I, 'L, 'M) TsdfServer \<Rightarrow>
   ('T, 'I, 'L, 'M) TsdfServer" where
  "step env (PointcloudMsg m) s = insertPointcloud env m s"
| "step env (FreespacePointcloudMsg m) s =
     (if use_freespace_pointcloud s then insertFreespacePointcloud env m s else s)"
| "step env TimerEvent s = updateMeshEvent env s"
| "step env GenerateMeshSrv s = snd (generateMeshCallback env s)"
| "step env (SaveMapSrv r) s = snd (saveMapCallback env r s)"
| "step env (LoadMapSrv r) s = snd (loadMapCallback env r s)"
| "step env ClearCall s = clear env s"

fun trajectory ::
  "('T, 'I, 'L, 'M) collaborators \<Rightarrow> event list \<Rightarrow> ('T, 'I, 'L, 'M) TsdfServer \<Rightarrow>
   ('T, 'I, 'L, 'M) TsdfServer list" where
  "trajectory env [] s = [s]"
| "trajectory env (e # es) s = s # trajectory env es (step env e s)"

text \<open>The calls a server \<open>s'\<close> has made since it was in state \<open>s\<close>.\<close>

definition new_calls ::
  "('T, 'I, 'L, 'M) TsdfServer \<Rightarrow> ('T, 'I, 'L, 'M) TsdfServer \<Rightarrow> ('T, 'L, 'M) call list" where
  "new_calls s s' = drop (length (calls s)) (calls s')"

section \<open>The layer containers and the mesh extractor\<close>

text \<open>
  \<^verbatim>\<open>Layer\<close>, \<^verbatim>\<open>MeshLayer\<close>, \<^verbatim>\<open>MeshIntegrator\<close> and the layer I/O belong to the voxblox
  core library, which the server file only calls. Where a property needs their
  behaviour, they are modelled here from the specification. A layer is a map from
  block indices to blocks; a TSDF block carries its voxel data and the
  \<^verbatim>\<open>updated\<close> (dirty) flag; a mesh layer maps a block index to the mesh of that block.
\<close>

type_synonym BlockIndex = "int \<times> int \<times> int"

record 'v Block =
  voxels :: 'v
  updated :: bool

type_synonym 'v Layer = "BlockIndex \<rightharpoonup> 'v Block"
type_synonym 'm MeshLayer = "BlockIndex \<rightharpoonup> 'm"

text \<open>The voxel data of a layer, without the flags.\<close>

definition voxel_content :: "'v Layer \<Rightarrow> (BlockIndex \<rightharpoonup> 'v)" where
  "voxel_content layer = (\<lambda>i. map_option voxels (layer i))"

text \<open>
  Modelled from the spec: \<^verbatim>\<open>MeshIntegrator::generateMesh\<close> is missing from the sources.
  The specification says: the mesh is a block-partitioned representation derived from the
  map's surface; a full regeneration pass includes and clears all blocks unconditionally;
  an incremental pass includes and clears only blocks currently marked dirty; a block's
  dirty flag is cleared exactly when a generation pass included that block. The surface
  extraction itself (marching cubes) is the parameter \<open>surface\<close>, a function of the
  voxel data of the map and of the block index.
\<close>

definition pass_includes :: "bool \<Rightarrow> 'v Block \<Rightarrow> bool" where
  "pass_includes only_mesh_updated_blocks b \<longleftrightarrow>
     (if only_mesh_updated_blocks then updated b else True)"

definition MeshIntegrator_generateMesh ::
  "((BlockIndex \<rightharpoonup> 'v) \<Rightarrow> BlockIndex \<Rightarrow> 'm) \<Rightarrow> bool \<Rightarrow> bool \<Rightarrow>
   'v Layer \<Rightarrow> 'm MeshLayer \<Rightarrow> 'v Layer \<times> 'm MeshLayer" where
  "MeshIntegrator_generateMesh surface only_mesh_updated_blocks clear_updated_flag layer mesh =
     ((\<lambda>i. case layer i of
              None \<Rightarrow> None
            | Some b \<Rightarrow>
                if pass_includes only_mesh_updated_blocks b \<and> clear_updated_flag
                then Some (b\<lparr>updated := False\<rparr>) else Some b),
      (\<lambda>i. case layer i of
              None \<Rightarrow> mesh i
            | Some b \<Rightarrow>
                if pass_includes only_mesh_updated_blocks b
                then Some (surface (voxel_content layer) i) else mesh i))"

text \<open>
  Modelled from the spec: \<^verbatim>\<open>Layer::removeAllBlocks\<close> and \<^verbatim>\<open>MeshLayer::clear\<close> are missing
  from the sources. The specification lets the map shrink by an explicit clear only; the
  two operations leave a container without any block.
\<close>

definition Layer_removeAllBlocks :: "'v Layer \<Rightarrow> 'v Layer" where
  "Layer_removeAllBlocks layer = Map.empty"

definition MeshLayer_clear :: "'m MeshLayer \<Rightarrow> 'm MeshLayer" where
  "MeshLayer_clear mesh = Map.empty"

text \<open>
  The \<^verbatim>\<open>loadMap(path, strategy)\<close> of the specification, in its own words, to be compared
  with \<^verbatim>\<open>loadMapCallback\<close>: it delegates to the persistence codec with the strategy the
  caller supplies and marks all loaded blocks dirty. \<open>loaded\<close> lists the indices of the
  blocks that the file holds.
\<close>

fun mark_dirty :: "BlockIndex list \<Rightarrow> 'v Layer \<Rightarrow> 'v Layer" where
  "mark_dirty [] layer = layer"
| "mark_dirty (i # idxs) layer =
     mark_dirty idxs (case layer i of None \<Rightarrow> layer | Some b \<Rightarrow> layer(i \<mapsto> b\<lparr>updated := True\<rparr>))"

definition spec_loadMap ::
  "('T, 'I, 'v Layer, 'M) collaborators \<Rightarrow> string \<Rightarrow> BlockMergingStrategy \<Rightarrow>
   BlockIndex list \<Rightarrow> ('T, 'I, 'v Layer, 'M) TsdfServer \<Rightarrow>
   bool \<times> ('T, 'I, 'v Layer, 'M) TsdfServer" where
  "spec_loadMap env path strategy loaded s =
     (case io_LoadBlocksFromFile env path strategy (tsdf_layer s) of
        (ok, layer) \<Rightarrow>
          (ok, record_call (LoadBlocksFromFile path strategy ok)
                 (s\<lparr>tsdf_layer := (if ok then mark_dirty loaded layer else layer)\<rparr>)))"

section \<open>An example server\<close>

text \<open>
  A cloud of four samples, the second with a NaN and the third with an infinite coordinate;
  a transformer that knows the frame \<^verbatim>\<open>camera\<close> only; an integrator that writes block
  \<open>(0, 0, 0)\<close>; a PLY writer that fails; a map file \<^verbatim>\<open>map.vxblx\<close> that holds one block
  with index \<open>(0, 0, 0)\<close>, added to the layer according to the merging strategy.
\<close>

definition example_cloud :: "PointXYZRGB list" where
  "example_cloud =
     [\<lparr>pt_x = 0x3F800000, pt_y = 0, pt_z = 0x40000000, pt_r = 255, pt_g = 0, pt_b = 0, pt_a = 255\<rparr>,
      \<lparr>pt_x = 0x7FC00000, pt_y = 0, pt_z = 0, pt_r = 0, pt_g = 255, pt_b = 0, pt_a = 255\<rparr>,
      \<lparr>pt_x = 0, pt_y = 0xFF800000, pt_z = 0, pt_r = 0, pt_g = 0, pt_b = 255, pt_a = 255\<rparr>,
      \<lparr>pt_x = 0xBF800000, pt_y = 0x3F000000, pt_z = 0, pt_r = 9, pt_g = 9, pt_b = 9, pt_a = 255\<rparr>]"

definition example_surface :: "(BlockIndex \<rightharpoonup> nat) \<Rightarrow> BlockIndex \<Rightarrow> nat" where
  "example_surface content i = (case content i of None \<Rightarrow> 0 | Some v \<Rightarrow> 2 * v)"

definition example_file_block :: "nat Block" where
  "example_file_block = \<lparr>voxels = 7, updated = False\<rparr>"

definition example_LoadBlocksFromFile ::
  "string \<Rightarrow> BlockMergingStrategy \<Rightarrow> nat Layer \<Rightarrow> bool \<times> nat Layer" where
  "example_LoadBlocksFromFile path strategy layer =
     (if path \<noteq> ''map.vxblx'' then (False, layer)
      else case layer (0, 0, 0) of
             None \<Rightarrow> (True, layer((0, 0, 0) \<mapsto> example_file_block))
           | Some old \<Rightarrow>
               (case strategy of
                  kProhibit \<Rightarrow> (False, layer)
                | kReplace \<Rightarrow> (True, layer((0, 0, 0) \<mapsto> example_file_block))
                | kDiscard \<Rightarrow> (True, layer)
                | kMerge \<Rightarrow>
                    (True, layer((0, 0, 0) \<mapsto>
                       \<lparr>voxels = voxels old + voxels example_file_block, updated = False\<rparr>))))"

definition example_env :: "(nat, nat, nat Layer, nat MeshLayer) collaborators" where
  "example_env =
     \<lparr>transformer_lookupTransform =
        (\<lambda>frame world stamp. if frame = ''camera'' then Some 1 else None),
      pcl_fromROSMsg = (\<lambda>m. example_cloud),
      tsdf_integrator_integratePointCloud =
        (\<lambda>T P C fs n layer.
           (Suc n, layer((0, 0, 0) \<mapsto> \<lparr>voxels = length P, updated = True\<rparr>))),
      mesh_integrator_generateMesh = MeshIntegrator_generateMesh example_surface,
      io_outputMeshLayerAsPly = (\<lambda>path mesh. False),
      io_SaveLayer = (\<lambda>layer path. True),
      io_LoadBlocksFromFile = example_LoadBlocksFromFile,
      layer_removeAllBlocks = Layer_removeAllBlocks,
      mesh_layer_clear = MeshLayer_clear\<rparr>"

definition example_server :: "(nat, nat, nat Layer, nat MeshLayer) TsdfServer" where
  "example_server =
     \<lparr>verbose = True, world_frame = ''world'', use_freespace_pointcloud = True,
      publish_tsdf_info = True, publish_slices = False, min_time_between_msgs = 100,
      mesh_filename = ''mesh.ply'', color_mode = kColor,
      last_msg_time = 1000, last_msg_time_freespace = 0,
      tsdf_integrator = 0,
      tsdf_layer = [(0, 0, 0) \<mapsto> \<lparr>voxels = 3, updated = True\<rparr>],
      mesh_layer = Map.empty, calls = []\<rparr>"

definition example_msg :: "time \<Rightarrow> string \<Rightarrow> PointCloud2" where
  "example_msg stamp frame =
     \<lparr>header_stamp = stamp, header_frame_id = frame,
      msg_fields = [\<lparr>field_name = ''x'', field_datatype = 7\<rparr>,
                    \<lparr>field_name = ''rgb'', field_datatype = 6\<rparr>],
      msg_data = []\<rparr>"


section \<open>Basic facts\<close>

lemma record_call_fields [simp]:
  "calls (record_call c s) = calls s @ [c]"
  "last_msg_time (record_call c s) = last_msg_time s"
  "last_msg_time_freespace (record_call c s) = last_msg_time_freespace s"
  "min_time_between_msgs (record_call c s) = min_time_between_msgs s"
  "use_freespace_pointcloud (record_call c s) = use_freespace_pointcloud s"
  "publish_tsdf_info (record_call c s) = publish_tsdf_info s"
  "publish_slices (record_call c s) = publish_slices s"
  "world_frame (record_call c s) = world_frame s"
  "verbose (record_call c s) = verbose s"
  "mesh_filename (record_call c s) = mesh_filename s"
  "color_mode (record_call c s) = color_mode s"
  "tsdf_integrator (record_call c s) = tsdf_integrator s"
  "tsdf_layer (record_call c s) = tsdf_layer s"
  "mesh_layer (record_call c s) = mesh_layer s"
  by (simp_all add: record_call_def)

text \<open>What \<^verbatim>\<open>processPointCloudMessageAndInsert\<close> records and what it leaves alone.\<close>

lemma process_calls:
  "\<exists>rest. calls (processPointCloudMessageAndInsert env m fs s) =
      calls s @ LookupTransform (header_frame_id m) (world_frame s) (header_stamp m) # rest"
  by (simp add: processPointCloudMessageAndInsert_def integratePointcloud_def Let_def
           split: option.split prod.split)

lemma process_frame:
  "last_msg_time (processPointCloudMessageAndInsert env m fs s) = last_msg_time s"
  "last_msg_time_freespace (processPointCloudMessageAndInsert env m fs s) = last_msg_time_freespace s"
  "min_time_between_msgs (processPointCloudMessageAndInsert env m fs s) = min_time_between_msgs s"
  "publish_tsdf_info (processPointCloudMessageAndInsert env m fs s) = publish_tsdf_info s"
  "publish_slices (processPointCloudMessageAndInsert env m fs s) = publish_slices s"
  "world_frame (processPointCloudMessageAndInsert env m fs s) = world_frame s"
  by (simp_all add: processPointCloudMessageAndInsert_def integratePointcloud_def Let_def
           split: option.split prod.split)

lemmas publish_defs =
  publishAllUpdatedTsdfVoxels_def publishTsdfSurfacePoints_def
  publishTsdfOccupiedNodes_def publishSlices_def

lemma admitted_calls:
  "\<exists>rest. calls (insertPointcloud_admitted env m s) =
      calls s @ LookupTransform (header_frame_id m) (world_frame s) (header_stamp m) # rest"
proof -
  obtain rest where
    "calls (processPointCloudMessageAndInsert env m False s) =
       calls s @ LookupTransform (header_frame_id m) (world_frame s) (header_stamp m) # rest"
    using process_calls by blast
  then show ?thesis
    by (simp add: insertPointcloud_admitted_def Let_def publish_defs)
qed

lemma admitted_frame:
  "last_msg_time (insertPointcloud_admitted env m s) = last_msg_time s"
  "last_msg_time_freespace (insertPointcloud_admitted env m s) = last_msg_time_freespace s"
  "min_time_between_msgs (insertPointcloud_admitted env m s) = min_time_between_msgs s"
  by (simp_all add: insertPointcloud_admitted_def Let_def process_frame publish_defs)

section \<open>Admission of frames\<close>

text \<open>
  Claim C1. For every incoming frame on a stream (primary or freespace), the frame is
  admitted, that is handed to \<^verbatim>\<open>processPointCloudMessageAndInsert\<close>, whose first act is
  the transform lookup, if and only if its timestamp minus the stream's watermark is at
  least \<^verbatim>\<open>min_time_between_msgs_\<close>. When it is admitted the watermark of the stream is the
  frame's timestamp afterwards, whatever the collaborators do downstream; when it is
  dropped the server, and so the watermark, is unchanged.
\<close>

theorem throttle_admission:
  "(new_calls s (insertPointcloud env m s) \<noteq> [] \<longleftrightarrow>
      min_time_between_msgs s \<le> header_stamp m - last_msg_time s) \<and>
   (min_time_between_msgs s \<le> header_stamp m - last_msg_time s \<longrightarrow>
      last_msg_time (insertPointcloud env m s) = header_stamp m \<and>
      (\<exists>rest. new_calls s (insertPointcloud env m s) =
         LookupTransform (header_frame_id m) (world_frame s) (header_stamp m) # rest)) \<and>
   (header_stamp m - last_msg_time s < min_time_between_msgs s \<longrightarrow>
      insertPointcloud env m s = s) \<and>
   (new_calls s (insertFreespacePointcloud env m s) \<noteq> [] \<longleftrightarrow>
      min_time_between_msgs s \<le> header_stamp m - last_msg_time_freespace s) \<and>
   (min_time_between_msgs s \<le> header_stamp m - last_msg_time_freespace s \<longrightarrow>
      last_msg_time_freespace (insertFreespacePointcloud env m s) = header_stamp m \<and>
      (\<exists>rest. new_calls s (insertFreespacePointcloud env m s) =
         LookupTransform (header_frame_id m) (world_frame s) (header_stamp m) # rest)) \<and>
   (header_stamp m - last_msg_time_freespace s < min_time_between_msgs s \<longrightarrow>
      insertFreespacePointcloud env m s = s)"
proof -
  obtain r1 where r1:
    "calls (insertPointcloud_admitted env m (s\<lparr>last_msg_time := header_stamp m\<rparr>)) =
       calls s @ LookupTransform (header_frame_id m) (world_frame s) (header_stamp m) # r1"
    using admitted_calls [of env m "s\<lparr>last_msg_time := header_stamp m\<rparr>"] by auto
  obtain r2 where r2:
    "calls (processPointCloudMessageAndInsert env m True
              (s\<lparr>last_msg_time_freespace := header_stamp m\<rparr>)) =
       calls s @ LookupTransform (header_frame_id m) (world_frame s) (header_stamp m) # r2"
    using process_calls [of env m True "s\<lparr>last_msg_time_freespace := header_stamp m\<rparr>"] by auto
  show ?thesis
    using r1 r2
    by (simp add: insertPointcloud_def insertFreespacePointcloud_def admitted_frame
          process_frame not_less new_calls_def)
qed

theorem throttle_admission_witness:
  "min_time_between_msgs example_server \<le>
     header_stamp (example_msg 1100 ''lidar'') - last_msg_time example_server \<and>
   last_msg_time (insertPointcloud example_env (example_msg 1100 ''lidar'') example_server) = 1100 \<and>
   header_stamp (example_msg 1099 ''camera'') - last_msg_time example_server
     < min_time_between_msgs example_server \<and>
   insertPointcloud example_env (example_msg 1099 ''camera'') example_server = example_server \<and>
   last_msg_time_freespace
     (insertFreespacePointcloud example_env (example_msg 1099 ''camera'') example_server) = 1099 \<and>
   insertFreespacePointcloud example_env (example_msg 99 ''camera'') example_server
     = example_server"
  using throttle_admission [where s = example_server and env = example_env
          and m = "example_msg 1100 ''lidar''"]
        throttle_admission [where s = example_server and env = example_env
          and m = "example_msg 1099 ''camera''"]
        throttle_admission [where s = example_server and env = example_env
          and m = "example_msg 99 ''camera''"]
  by (simp add: example_server_def example_msg_def)

section \<open>Sanitization of a frame\<close>

text \<open>The loop from index \<open>i\<close> on appends the finite samples of the rest of the cloud.\<close>

lemma sanitize_loop_filter:
  "sanitize_loop pcl i (P, C) =
     (P @ map (\<lambda>p. Point (pt_x p) (pt_y p) (pt_z p))
            (filter (\<lambda>p. isfinite (pt_x p) \<and> isfinite (pt_y p) \<and> isfinite (pt_z p))
               (drop i pcl)),
      C @ map (\<lambda>p. Color (pt_r p) (pt_g p) (pt_b p) (pt_a p))
            (filter (\<lambda>p. isfinite (pt_x p) \<and> isfinite (pt_y p) \<and> isfinite (pt_z p))
               (drop i pcl)))"
proof (induction pcl i "(P, C)" arbitrary: P C rule: sanitize_loop.induct)
  case (1 pcl i P C)
  show ?case
  proof (cases "i < length pcl")
    case False
    then show ?thesis by simp
  next
    case True
    then have d: "drop i pcl = pcl ! i # drop (Suc i) pcl"
      by (simp add: Cons_nth_drop_Suc)
    show ?thesis
    proof (cases "isfinite (pt_x (pcl ! i)) \<and> isfinite (pt_y (pcl ! i)) \<and>
                  isfinite (pt_z (pcl ! i))")
      case True
      with \<open>i < length pcl\<close> "1.hyps"(2) d show ?thesis
        by (subst sanitize_loop.simps) simp
    next
      case False
      with \<open>i < length pcl\<close> "1.hyps"(1) d show ?thesis
        by (subst sanitize_loop.simps) auto
    qed
  qed
qed





text \<open>
  Claim C3. For every raw frame, sanitization keeps exactly the samples whose three
  coordinates are all finite, so it drops exactly those with at least one non-finite
  (NaN or infinite) coordinate, the colour of a dropped sample with it. The geometry and
  colour arrays are the images of one and the same filtered list: they have equal
  length, at most the length of the input, the retained samples keep their relative
  order and the colour at an index belongs to the point at that index. Nothing else is
  filtered or merged, and these two arrays are what the integrator receives.
\<close>

theorem sanitize_filters_nonfinite:
  "sanitize pcl =
     (map (\<lambda>p. Point (pt_x p) (pt_y p) (pt_z p))
        (filter (\<lambda>p. isfinite (pt_x p) \<and> isfinite (pt_y p) \<and> isfinite (pt_z p)) pcl),
      map (\<lambda>p. Color (pt_r p) (pt_g p) (pt_b p) (pt_a p))
        (filter (\<lambda>p. isfinite (pt_x p) \<and> isfinite (pt_y p) \<and> isfinite (pt_z p)) pcl)) \<and>
   length (fst (sanitize pcl)) = length (snd (sanitize pcl)) \<and>
   length (fst (sanitize pcl)) \<le> length pcl \<and>
   (transformer_lookupTransform env (header_frame_id m) (world_frame s) (header_stamp m) = Some T \<and>
    pcl_fromROSMsg env (m\<lparr>msg_fields := fix_rgb_fields (msg_fields m)\<rparr>) = pcl \<longrightarrow>
      new_calls s (processPointCloudMessageAndInsert env m fs s) =
        [LookupTransform (header_frame_id m) (world_frame s) (header_stamp m),
         IntegratePointCloud T (fst (sanitize pcl)) (snd (sanitize pcl)) fs,
         NewPoseCallback T])"
proof -
  have eq: "sanitize pcl =
     (map (\<lambda>p. Point (pt_x p) (pt_y p) (pt_z p))
        (filter (\<lambda>p. isfinite (pt_x p) \<and> isfinite (pt_y p) \<and> isfinite (pt_z p)) pcl),
      map (\<lambda>p. Color (pt_r p) (pt_g p) (pt_b p) (pt_a p))
        (filter (\<lambda>p. isfinite (pt_x p) \<and> isfinite (pt_y p) \<and> isfinite (pt_z p)) pcl))"
    unfolding sanitize_def sanitize_loop_filter by simp
  have len: "length (fst (sanitize pcl)) = length (snd (sanitize pcl))"
    "length (fst (sanitize pcl)) \<le> length pcl"
    unfolding eq by simp_all
  have call: "new_calls s (processPointCloudMessageAndInsert env m fs s) =
        [LookupTransform (header_frame_id m) (world_frame s) (header_stamp m),
         IntegratePointCloud T (fst (sanitize pcl)) (snd (sanitize pcl)) fs,
         NewPoseCallback T]"
    if "transformer_lookupTransform env (header_frame_id m) (world_frame s) (header_stamp m) = Some T"
      and "pcl_fromROSMsg env (m\<lparr>msg_fields := fix_rgb_fields (msg_fields m)\<rparr>) = pcl"
    using that
    by (simp add: processPointCloudMessageAndInsert_def new_calls_def
          integratePointcloud_def Let_def split: prod.split)
  from eq len call show ?thesis by blast
qed


theorem sanitize_filters_nonfinite_witness:
  "sanitize example_cloud =
     ([Point 0x3F800000 0 0x40000000, Point 0xBF800000 0x3F000000 0],
      [Color 255 0 0 255, Color 9 9 9 255]) \<and>
   new_calls example_server
     (processPointCloudMessageAndInsert example_env (example_msg 1100 ''camera'') True
        example_server) =
     [LookupTransform ''camera'' ''world'' 1100,
      IntegratePointCloud 1 [Point 0x3F800000 0 0x40000000, Point 0xBF800000 0x3F000000 0]
        [Color 255 0 0 255, Color 9 9 9 255] True,
      NewPoseCallback 1]"
  using sanitize_filters_nonfinite [where pcl = example_cloud and env = example_env
          and m = "example_msg 1100 ''camera''" and s = example_server and T = 1 and fs = True]
  by (simp add: example_cloud_def isfinite_def example_env_def example_msg_def
        example_server_def)

section \<open>Failure of the pose lookup\<close>

text \<open>
  Claim C4. For every admitted frame whose pose lookup fails, the frame is discarded:
  \<^verbatim>\<open>processPointCloudMessageAndInsert\<close> does nothing beyond the lookup (its result does
  not depend on the samples of the frame, so nothing is sanitized), the integrator is
  not called, the pose hook is not called, the map and the integrator are unchanged, and
  the operation returns normally. The watermark of the stream has been set to the frame's
  timestamp all the same, since admission comes before the lookup. On the primary stream
  the diagnostic publications that are switched on still follow.
\<close>

theorem pose_failure_discards_frame:
  assumes "transformer_lookupTransform env (header_frame_id m) (world_frame s) (header_stamp m)
             = None"
  shows
    "processPointCloudMessageAndInsert env m fs s =
       record_call (LookupTransform (header_frame_id m) (world_frame s) (header_stamp m)) s \<and>
     (min_time_between_msgs s \<le> header_stamp m - last_msg_time s \<longrightarrow>
        last_msg_time (insertPointcloud env m s) = header_stamp m \<and>
        tsdf_layer (insertPointcloud env m s) = tsdf_layer s \<and>
        tsdf_integrator (insertPointcloud env m s) = tsdf_integrator s \<and>
        new_calls s (insertPointcloud env m s) =
          LookupTransform (header_frame_id m) (world_frame s) (header_stamp m) #
          (if publish_tsdf_info s
           then [PublishTsdfPointcloud (tsdf_layer s) (world_frame s),
                 PublishSurfacePointcloud (tsdf_layer s) (world_frame s),
                 PublishOccupiedNodes (tsdf_layer s) (world_frame s)]
           else []) @
          (if publish_slices s then [PublishSlice (tsdf_layer s) (world_frame s)] else []) \<and>
        (\<forall>T P C b. IntegratePointCloud T P C b \<notin> set (new_calls s (insertPointcloud env m s))) \<and>
        (\<forall>T. NewPoseCallback T \<notin> set (new_calls s (insertPointcloud env m s)))) \<and>
     (min_time_between_msgs s \<le> header_stamp m - last_msg_time_freespace s \<longrightarrow>
        last_msg_time_freespace (insertFreespacePointcloud env m s) = header_stamp m \<and>
        tsdf_layer (insertFreespacePointcloud env m s) = tsdf_layer s \<and>
        tsdf_integrator (insertFreespacePointcloud env m s) = tsdf_integrator s \<and>
        new_calls s (insertFreespacePointcloud env m s) =
          [LookupTransform (header_frame_id m) (world_frame s) (header_stamp m)])"
proof -
  have p: "processPointCloudMessageAndInsert env m fs' s' =
       record_call (LookupTransform (header_frame_id m) (world_frame s) (header_stamp m)) s'"
    if "world_frame s' = world_frame s" for s' :: "('a, 'b, 'c, 'd) TsdfServer" and fs'
    using assms that by (simp add: processPointCloudMessageAndInsert_def Let_def)
  have a: "insertPointcloud_admitted env m (s\<lparr>last_msg_time := header_stamp m\<rparr>) =
      (let s1 = record_call
                  (LookupTransform (header_frame_id m) (world_frame s) (header_stamp m))
                  (s\<lparr>last_msg_time := header_stamp m\<rparr>);
           s2 = (if publish_tsdf_info s1
                 then publishTsdfOccupiedNodes
                        (publishTsdfSurfacePoints (publishAllUpdatedTsdfVoxels s1))
                 else s1)
       in if publish_slices s2 then publishSlices s2 else s2)"
    unfolding insertPointcloud_admitted_def by (simp add: p)
  have prim: "min_time_between_msgs s \<le> header_stamp m - last_msg_time s \<Longrightarrow>
      insertPointcloud env m s = insertPointcloud_admitted env m (s\<lparr>last_msg_time := header_stamp m\<rparr>)"
    by (simp add: insertPointcloud_def)
  have fsp: "min_time_between_msgs s \<le> header_stamp m - last_msg_time_freespace s \<Longrightarrow>
      insertFreespacePointcloud env m s =
        record_call (LookupTransform (header_frame_id m) (world_frame s) (header_stamp m))
          (s\<lparr>last_msg_time_freespace := header_stamp m\<rparr>)"
    by (simp add: insertFreespacePointcloud_def p)
  show ?thesis
    apply (intro conjI impI allI)
              apply (simp add: p)
             apply (simp_all add: prim fsp a Let_def new_calls_def publish_defs)
    done
qed

theorem pose_failure_discards_frame_witness:
  "transformer_lookupTransform example_env (header_frame_id (example_msg 1100 ''lidar''))
     (world_frame example_server) (header_stamp (example_msg 1100 ''lidar'')) = None \<and>
   min_time_between_msgs example_server \<le>
     header_stamp (example_msg 1100 ''lidar'') - last_msg_time example_server \<and>
   last_msg_time (insertPointcloud example_env (example_msg 1100 ''lidar'') example_server) = 1100 \<and>
   tsdf_integrator (insertPointcloud example_env (example_msg 1100 ''lidar'') example_server) = 0 \<and>
   new_calls example_server
     (insertFreespacePointcloud example_env (example_msg 1100 ''lidar'') example_server) =
     [LookupTransform ''lidar'' ''world'' 1100]"
  using pose_failure_discards_frame [where env = example_env and s = example_server
          and m = "example_msg 1100 ''lidar''"]
  by (simp add: example_env_def example_msg_def example_server_def)

section \<open>The mesh cycles\<close>

text \<open>The two mesh operations, with their local bindings unfolded.\<close>

lemma updateMesh_eq:
  "updateMesh env s =
     s\<lparr>tsdf_layer := fst (mesh_integrator_generateMesh env True True (tsdf_layer s) (mesh_layer s)),
       mesh_layer := snd (mesh_integrator_generateMesh env True True (tsdf_layer s) (mesh_layer s)),
       calls := calls s @
         [MeshGenerate True True,
          PublishMesh (snd (mesh_integrator_generateMesh env True True (tsdf_layer s) (mesh_layer s)))
            (color_mode s) (world_frame s)]\<rparr>"
  by (simp add: updateMesh_def record_call_def Let_def split: prod.split)

lemma generateMesh_eq:
  "generateMesh env s =
     (True,
      s\<lparr>tsdf_layer := fst (mesh_integrator_generateMesh env False True (tsdf_layer s) (mesh_layer s)),
        mesh_layer := snd (mesh_integrator_generateMesh env False True (tsdf_layer s) (mesh_layer s)),
        calls := calls s @
          [MeshGenerate False True,
           PublishMesh (snd (mesh_integrator_generateMesh env False True (tsdf_layer s) (mesh_layer s)))
             (color_mode s) (world_frame s)] @
          (if mesh_filename s \<noteq> [] then
             [OutputMeshLayerAsPly (mesh_filename s)
                (snd (mesh_integrator_generateMesh env False True (tsdf_layer s) (mesh_layer s)))
                (io_outputMeshLayerAsPly env (mesh_filename s)
                   (snd (mesh_integrator_generateMesh env False True (tsdf_layer s) (mesh_layer s))))]
           else [])\<rparr>)"
  by (simp add: generateMesh_def record_call_def Let_def split: prod.split)

text \<open>
  Claim C5. Every full mesh cycle (\<^verbatim>\<open>generateMesh\<close>) calls the mesh integrator once, with
  \<^verbatim>\<open>only_mesh_updated_blocks = false\<close> and \<^verbatim>\<open>clear_updated_flag = true\<close>, then publishes
  the mesh it produced, and then calls the PLY export if and only if \<^verbatim>\<open>mesh_filename_\<close>
  is not empty. The export comes after the publication; whether it succeeds or fails,
  the calls before it and the layers of the server are the same: nothing is published
  again, extracted again or undone.
\<close>

theorem full_mesh_cycle:
  "new_calls s (snd (generateMesh env s)) =
     [MeshGenerate False True,
      PublishMesh (snd (mesh_integrator_generateMesh env False True (tsdf_layer s) (mesh_layer s)))
        (color_mode s) (world_frame s)] @
     (if mesh_filename s \<noteq> [] then
        [OutputMeshLayerAsPly (mesh_filename s)
           (snd (mesh_integrator_generateMesh env False True (tsdf_layer s) (mesh_layer s)))
           (io_outputMeshLayerAsPly env (mesh_filename s)
              (snd (mesh_integrator_generateMesh env False True (tsdf_layer s) (mesh_layer s))))]
      else []) \<and>
   tsdf_layer (snd (generateMesh env s)) =
     fst (mesh_integrator_generateMesh env False True (tsdf_layer s) (mesh_layer s)) \<and>
   mesh_layer (snd (generateMesh env s)) =
     snd (mesh_integrator_generateMesh env False True (tsdf_layer s) (mesh_layer s))"
  by (simp add: generateMesh_eq new_calls_def)

theorem full_mesh_cycle_witness:
  "mesh_filename example_server \<noteq> [] \<and>
   new_calls example_server (snd (generateMesh example_env example_server)) =
     [MeshGenerate False True,
      PublishMesh (mesh_layer (snd (generateMesh example_env example_server))) kColor ''world'',
      OutputMeshLayerAsPly ''mesh.ply''
        (mesh_layer (snd (generateMesh example_env example_server))) False] \<and>
   new_calls (example_server\<lparr>mesh_filename := []\<rparr>)
       (snd (generateMesh example_env (example_server\<lparr>mesh_filename := []\<rparr>))) =
     [MeshGenerate False True,
      PublishMesh (mesh_layer (snd (generateMesh example_env example_server))) kColor ''world'']"
  using full_mesh_cycle [where env = example_env and s = example_server]
        full_mesh_cycle [where env = example_env and s = "example_server\<lparr>mesh_filename := []\<rparr>"]
  by (simp add: example_server_def example_env_def)

text \<open>
  Claim C6. Every timer-triggered mesh cycle (\<^verbatim>\<open>updateMeshEvent\<close>) calls the mesh
  integrator with \<^verbatim>\<open>only_mesh_updated_blocks = true\<close> and \<^verbatim>\<open>clear_updated_flag = true\<close> and
  then publishes the mesh it produced. These are its only two calls: there is no PLY
  export and no layer save, so no file is written, and the configured mesh file name is
  left as it is.
\<close>

theorem incremental_mesh_cycle:
  "new_calls s (updateMeshEvent env s) =
     [MeshGenerate True True,
      PublishMesh (snd (mesh_integrator_generateMesh env True True (tsdf_layer s) (mesh_layer s)))
        (color_mode s) (world_frame s)] \<and>
   tsdf_layer (updateMeshEvent env s) =
     fst (mesh_integrator_generateMesh env True True (tsdf_layer s) (mesh_layer s)) \<and>
   mesh_layer (updateMeshEvent env s) =
     snd (mesh_integrator_generateMesh env True True (tsdf_layer s) (mesh_layer s)) \<and>
   mesh_filename (updateMeshEvent env s) = mesh_filename s \<and>
   (\<forall>path mesh ok. OutputMeshLayerAsPly path mesh ok \<notin> set (new_calls s (updateMeshEvent env s))) \<and>
   (\<forall>layer path ok. SaveLayer layer path ok \<notin> set (new_calls s (updateMeshEvent env s)))"
  by (simp add: updateMeshEvent_def updateMesh_eq new_calls_def)

theorem incremental_mesh_cycle_witness:
  "new_calls example_server (updateMeshEvent example_env example_server) =
     [MeshGenerate True True,
      PublishMesh (mesh_layer (updateMeshEvent example_env example_server)) kColor ''world''] \<and>
   mesh_filename (updateMeshEvent example_env example_server) = ''mesh.ply'' \<and>
   OutputMeshLayerAsPly ''mesh.ply'' (mesh_layer (updateMeshEvent example_env example_server)) False
     \<notin> set (new_calls example_server (updateMeshEvent example_env example_server))"
  using incremental_mesh_cycle [where env = example_env and s = example_server]
  by (simp add: example_server_def)

text \<open>
  Claim C2, amended. The on-demand full-mesh service (\<^verbatim>\<open>generateMeshCallback\<close>, that is
  \<^verbatim>\<open>generateMesh\<close>) returns true on every invocation; the outcome of the PLY export is
  logged, not returned.
\<close>

theorem generateMesh_returns_true:
  "fst (generateMesh env s) = True \<and> fst (generateMeshCallback env s) = True"
  by (simp add: generateMeshCallback_def generateMesh_eq)

theorem generateMesh_returns_true_witness:
  "fst (generateMeshCallback example_env example_server) = True \<and>
   io_outputMeshLayerAsPly example_env (mesh_filename example_server)
     (mesh_layer (snd (generateMeshCallback example_env example_server))) = False"
  using generateMesh_returns_true [where env = example_env and s = example_server]
  by (simp add: example_env_def)

text \<open>
  Claim C2 as stated, that the service returns false whenever the export fails, is false:
  on the example server a mesh file name is configured, the export fails, and the service
  returns true.
\<close>

theorem generateMesh_export_failure_counterexample:
  "\<not> (mesh_filename example_server \<noteq> [] \<and>
       OutputMeshLayerAsPly ''mesh.ply''
         (mesh_layer (snd (generateMeshCallback example_env example_server))) False
       \<in> set (new_calls example_server (snd (generateMeshCallback example_env example_server)))
      \<longrightarrow> fst (generateMeshCallback example_env example_server) = False)"
  by (simp add: generateMeshCallback_def generateMesh_eq new_calls_def example_server_def
        example_env_def)

section \<open>The watermarks over a run\<close>

text \<open>
  Handling a frame commutes with a change of the other stream's watermark: the handler
  neither reads nor writes it.
\<close>

lemma record_call_commute:
  "record_call c (s\<lparr>last_msg_time := w\<rparr>) = (record_call c s)\<lparr>last_msg_time := w\<rparr>"
  "record_call c (s\<lparr>last_msg_time_freespace := w\<rparr>) =
     (record_call c s)\<lparr>last_msg_time_freespace := w\<rparr>"
  by (simp_all add: record_call_def)

lemma process_commute:
  "processPointCloudMessageAndInsert env m fs (s\<lparr>last_msg_time := w\<rparr>) =
     (processPointCloudMessageAndInsert env m fs s)\<lparr>last_msg_time := w\<rparr>"
  "processPointCloudMessageAndInsert env m fs (s\<lparr>last_msg_time_freespace := w\<rparr>) =
     (processPointCloudMessageAndInsert env m fs s)\<lparr>last_msg_time_freespace := w\<rparr>"
  by (simp_all add: processPointCloudMessageAndInsert_def integratePointcloud_def Let_def
        record_call_def split: option.split prod.split)

lemma admitted_commute:
  "insertPointcloud_admitted env m (s\<lparr>last_msg_time_freespace := w\<rparr>) =
     (insertPointcloud_admitted env m s)\<lparr>last_msg_time_freespace := w\<rparr>"
  by (simp add: insertPointcloud_admitted_def Let_def process_commute process_frame
        publish_defs record_call_def)

lemma insert_watermark:
  "last_msg_time (insertPointcloud env m s) =
     (if header_stamp m - last_msg_time s < min_time_between_msgs s
      then last_msg_time s else header_stamp m)"
  "last_msg_time_freespace (insertPointcloud env m s) = last_msg_time_freespace s"
  "min_time_between_msgs (insertPointcloud env m s) = min_time_between_msgs s"
  "last_msg_time_freespace (insertFreespacePointcloud env m s) =
     (if header_stamp m - last_msg_time_freespace s < min_time_between_msgs s
      then last_msg_time_freespace s else header_stamp m)"
  "last_msg_time (insertFreespacePointcloud env m s) = last_msg_time s"
  "min_time_between_msgs (insertFreespacePointcloud env m s) = min_time_between_msgs s"
  by (simp_all add: insertPointcloud_def insertFreespacePointcloud_def admitted_frame
        process_frame)

lemma service_frame:
  "last_msg_time (snd (saveMapCallback env r s)) = last_msg_time s"
  "last_msg_time_freespace (snd (saveMapCallback env r s)) = last_msg_time_freespace s"
  "min_time_between_msgs (snd (saveMapCallback env r s)) = min_time_between_msgs s"
  "last_msg_time (snd (loadMapCallback env r s)) = last_msg_time s"
  "last_msg_time_freespace (snd (loadMapCallback env r s)) = last_msg_time_freespace s"
  "min_time_between_msgs (snd (loadMapCallback env r s)) = min_time_between_msgs s"
  "last_msg_time (clear env s) = last_msg_time s"
  "last_msg_time_freespace (clear env s) = last_msg_time_freespace s"
  "min_time_between_msgs (clear env s) = min_time_between_msgs s"
  by (simp_all add: saveMapCallback_def loadMapCallback_def clear_def Let_def
        split: prod.split)

lemma step_watermarks:
  assumes "0 \<le> min_time_between_msgs s"
  shows "last_msg_time s \<le> last_msg_time (step env e s)"
    and "last_msg_time_freespace s \<le> last_msg_time_freespace (step env e s)"
    and "min_time_between_msgs (step env e s) = min_time_between_msgs s"
  using assms
  by (cases e; simp add: insert_watermark service_frame updateMeshEvent_def updateMesh_eq
        generateMeshCallback_def generateMesh_eq)+

lemma trajectory_watermarks:
  assumes "0 \<le> min_time_between_msgs s" and "s' \<in> set (trajectory env es s)"
  shows "last_msg_time s \<le> last_msg_time s' \<and>
         last_msg_time_freespace s \<le> last_msg_time_freespace s'"
  using assms
proof (induction es arbitrary: s)
  case Nil
  then show ?case by simp
next
  case (Cons e es)
  show ?case
  proof (cases "s' = s")
    case True
    then show ?thesis by simp
  next
    case False
    with Cons.prems have in_rest: "s' \<in> set (trajectory env es (step env e s))"
      by simp
    have "0 \<le> min_time_between_msgs (step env e s)"
      using Cons.prems(1) by (simp add: step_watermarks)
    from Cons.IH [OF this in_rest]
      step_watermarks(1,2) [OF Cons.prems(1), where env = env and e = e]
    show ?thesis by linarith
  qed
qed

lemma trajectory_sorted:
  assumes "0 \<le> min_time_between_msgs s"
  shows "sorted (map last_msg_time (trajectory env es s)) \<and>
         sorted (map last_msg_time_freespace (trajectory env es s))"
  using assms
proof (induction es arbitrary: s)
  case Nil
  show ?case by simp
next
  case (Cons e es)
  have pos: "0 \<le> min_time_between_msgs (step env e s)"
    using Cons.prems by (simp add: step_watermarks)
  have above: "last_msg_time s \<le> last_msg_time s' \<and>
               last_msg_time_freespace s \<le> last_msg_time_freespace s'"
    if "s' \<in> set (trajectory env es (step env e s))" for s'
    using trajectory_watermarks [OF pos that]
      step_watermarks(1,2) [OF Cons.prems, where env = env and e = e]
    by linarith
  from Cons.IH [OF pos] above show ?case
    by simp
qed

lemma swap_watermarks:
  "s\<lparr>last_msg_time_freespace := w, last_msg_time := t\<rparr> =
     s\<lparr>last_msg_time := t, last_msg_time_freespace := w\<rparr>"
  by (cases s) simp

lemma insertPointcloud_commute:
  "insertPointcloud env m (s\<lparr>last_msg_time_freespace := w\<rparr>) =
     (insertPointcloud env m s)\<lparr>last_msg_time_freespace := w\<rparr>"
proof (cases "header_stamp m - last_msg_time s < min_time_between_msgs s")
  case True
  then show ?thesis by (simp add: insertPointcloud_def)
next
  case False
  then have "insertPointcloud env m (s\<lparr>last_msg_time_freespace := w\<rparr>) =
      insertPointcloud_admitted env m
        ((s\<lparr>last_msg_time := header_stamp m\<rparr>)\<lparr>last_msg_time_freespace := w\<rparr>)"
    by (simp add: insertPointcloud_def swap_watermarks)
  also have "\<dots> = (insertPointcloud_admitted env m (s\<lparr>last_msg_time := header_stamp m\<rparr>))
                      \<lparr>last_msg_time_freespace := w\<rparr>"
    by (rule admitted_commute)
  also from False have "\<dots> = (insertPointcloud env m s)\<lparr>last_msg_time_freespace := w\<rparr>"
    by (simp add: insertPointcloud_def)
  finally show ?thesis .
qed

lemma insertFreespacePointcloud_commute:
  "insertFreespacePointcloud env m (s\<lparr>last_msg_time := w\<rparr>) =
     (insertFreespacePointcloud env m s)\<lparr>last_msg_time := w\<rparr>"
proof (cases "header_stamp m - last_msg_time_freespace s < min_time_between_msgs s")
  case True
  then show ?thesis by (simp add: insertFreespacePointcloud_def)
next
  case False
  then have "insertFreespacePointcloud env m (s\<lparr>last_msg_time := w\<rparr>) =
      processPointCloudMessageAndInsert env m True
        ((s\<lparr>last_msg_time_freespace := header_stamp m\<rparr>)\<lparr>last_msg_time := w\<rparr>)"
    by (simp add: insertFreespacePointcloud_def swap_watermarks)
  also have "\<dots> = (processPointCloudMessageAndInsert env m True
                        (s\<lparr>last_msg_time_freespace := header_stamp m\<rparr>))
                      \<lparr>last_msg_time := w\<rparr>"
    by (rule process_commute)
  also from False have "\<dots> = (insertFreespacePointcloud env m s)\<lparr>last_msg_time := w\<rparr>"
    by (simp add: insertFreespacePointcloud_def)
  finally show ?thesis .
qed

text \<open>
  Claim C8. When the configured minimum interval is not negative, each stream's watermark
  is monotonic non-decreasing over every sequence of events the server handles (frames
  of either stream, timer ticks, service requests, clear): the list of its successive
  values is sorted. The two watermarks are independent: handling a primary frame gives the
  same result whatever the freespace watermark is and leaves it as it was, and handling a
  freespace frame does the same with the primary watermark.
\<close>

theorem watermarks_monotonic_independent:
  assumes "0 \<le> min_time_between_msgs s"
  shows "sorted (map last_msg_time (trajectory env es s)) \<and>
         sorted (map last_msg_time_freespace (trajectory env es s)) \<and>
         insertPointcloud env m (s\<lparr>last_msg_time_freespace := w\<rparr>) =
           (insertPointcloud env m s)\<lparr>last_msg_time_freespace := w\<rparr> \<and>
         insertFreespacePointcloud env m (s\<lparr>last_msg_time := w\<rparr>) =
           (insertFreespacePointcloud env m s)\<lparr>last_msg_time := w\<rparr>"
  using trajectory_sorted [OF assms] insertPointcloud_commute insertFreespacePointcloud_commute
  by blast


theorem watermarks_monotonic_independent_witness:
  "0 \<le> min_time_between_msgs example_server \<and>
   map last_msg_time (trajectory example_env
          [PointcloudMsg (example_msg 1100 ''camera''),
           FreespacePointcloudMsg (example_msg 1150 ''camera''),
           PointcloudMsg (example_msg 1050 ''camera''),
           TimerEvent,
           PointcloudMsg (example_msg 1250 ''lidar'')] example_server) =
     [1000, 1100, 1100, 1100, 1100, 1250] \<and>
   sorted (map last_msg_time (trajectory example_env
          [PointcloudMsg (example_msg 1100 ''camera''),
           FreespacePointcloudMsg (example_msg 1150 ''camera''),
           PointcloudMsg (example_msg 1050 ''camera''),
           TimerEvent,
           PointcloudMsg (example_msg 1250 ''lidar'')] example_server)) \<and>
   sorted (map last_msg_time_freespace (trajectory example_env
          [PointcloudMsg (example_msg 1100 ''camera''),
           FreespacePointcloudMsg (example_msg 1150 ''camera''),
           PointcloudMsg (example_msg 1050 ''camera''),
           TimerEvent,
           PointcloudMsg (example_msg 1250 ''lidar'')] example_server))"
proof -
  have pos: "0 \<le> min_time_between_msgs example_server"
    by (simp add: example_server_def)
  have vals: "map last_msg_time (trajectory example_env
          [PointcloudMsg (example_msg 1100 ''camera''),
           FreespacePointcloudMsg (example_msg 1150 ''camera''),
           PointcloudMsg (example_msg 1050 ''camera''),
           TimerEvent,
           PointcloudMsg (example_msg 1250 ''lidar'')] example_server) =
     [1000, 1100, 1100, 1100, 1100, 1250]"
    by (simp add: insert_watermark updateMeshEvent_def updateMesh_eq example_server_def
          example_msg_def)
  from pos vals watermarks_monotonic_independent [OF pos] show ?thesis
    by blast
qed

section \<open>Loading a map\<close>

text \<open>
  Claim C7, amended. For every load request, which carries a file path and nothing else,
  \<^verbatim>\<open>loadMapCallback\<close> delegates to the persistence codec with the fixed strategy
  \<^verbatim>\<open>kReplace\<close>, keeps the layer the codec produced as it is, and returns the codec's
  result. It is the only call made; the server itself changes no dirty flag and leaves
  the mesh layer alone.
\<close>

theorem loadMap_delegates_with_kReplace:
  "fst (loadMapCallback env request s) =
     fst (io_LoadBlocksFromFile env (file_path request) kReplace (tsdf_layer s)) \<and>
   tsdf_layer (snd (loadMapCallback env request s)) =
     snd (io_LoadBlocksFromFile env (file_path request) kReplace (tsdf_layer s)) \<and>
   new_calls s (snd (loadMapCallback env request s)) =
     [LoadBlocksFromFile (file_path request) kReplace
        (fst (io_LoadBlocksFromFile env (file_path request) kReplace (tsdf_layer s)))] \<and>
   mesh_layer (snd (loadMapCallback env request s)) = mesh_layer s"
  by (simp add: loadMapCallback_def new_calls_def split: prod.split)

theorem loadMap_delegates_with_kReplace_witness:
  "fst (loadMapCallback example_env \<lparr>file_path = ''map.vxblx''\<rparr> example_server) = True \<and>
   new_calls example_server
     (snd (loadMapCallback example_env \<lparr>file_path = ''map.vxblx''\<rparr> example_server)) =
     [LoadBlocksFromFile ''map.vxblx'' kReplace True] \<and>
   fst (loadMapCallback example_env \<lparr>file_path = ''none.vxblx''\<rparr> example_server) = False"
  using loadMap_delegates_with_kReplace [where env = example_env and s = example_server
          and request = "\<lparr>file_path = ''map.vxblx''\<rparr>"]
        loadMap_delegates_with_kReplace [where env = example_env and s = example_server
          and request = "\<lparr>file_path = ''none.vxblx''\<rparr>"]
  by (simp add: example_env_def example_server_def example_LoadBlocksFromFile_def)

text \<open>
  On the example server the map holds block \<open>(0, 0, 0)\<close> with voxel data 3 and the file
  holds a block with the same index and voxel data 7.
\<close>

lemma example_loadMapCallback:
  "tsdf_layer (snd (loadMapCallback example_env \<lparr>file_path = ''map.vxblx''\<rparr> example_server))
     (0, 0, 0) = Some \<lparr>voxels = 7, updated = False\<rparr>"
  by (simp add: loadMapCallback_def example_env_def example_server_def
        example_LoadBlocksFromFile_def example_file_block_def split: prod.split)

lemma example_spec_loadMap:
  "tsdf_layer (snd (spec_loadMap example_env ''map.vxblx'' kMerge [(0, 0, 0)] example_server))
     (0, 0, 0) = Some \<lparr>voxels = 10, updated = True\<rparr>"
  "tsdf_layer (snd (spec_loadMap example_env ''map.vxblx'' kReplace [(0, 0, 0)] example_server))
     (0, 0, 0) = Some \<lparr>voxels = 7, updated = True\<rparr>"
  by (simp_all add: spec_loadMap_def example_env_def example_server_def
        example_LoadBlocksFromFile_def example_file_block_def split: prod.split)

text \<open>
  Claim C7 as stated, that the load follows the strategy the caller supplies and marks
  every loaded block dirty, is false. On the example server \<^verbatim>\<open>loadMapCallback\<close> differs
  from the specified operation both for a caller who asks for merging and for one who
  asks for replacing: the code replaces the block whatever the caller wants, and the
  loaded block carries the flag the codec gave it, which the server does not set.
\<close>

theorem loadMap_counterexample:
  "loadMapCallback example_env \<lparr>file_path = ''map.vxblx''\<rparr> example_server \<noteq>
     spec_loadMap example_env ''map.vxblx'' kMerge [(0, 0, 0)] example_server \<and>
   loadMapCallback example_env \<lparr>file_path = ''map.vxblx''\<rparr> example_server \<noteq>
     spec_loadMap example_env ''map.vxblx'' kReplace [(0, 0, 0)] example_server \<and>
   tsdf_layer (snd (loadMapCallback example_env \<lparr>file_path = ''map.vxblx''\<rparr> example_server))
     (0, 0, 0) = Some \<lparr>voxels = 7, updated = False\<rparr> \<and>
   tsdf_layer (snd (spec_loadMap example_env ''map.vxblx'' kMerge [(0, 0, 0)] example_server))
     (0, 0, 0) = Some \<lparr>voxels = 10, updated = True\<rparr>"
proof -
  let ?code = "loadMapCallback example_env \<lparr>file_path = ''map.vxblx''\<rparr> example_server"
  have "?code \<noteq> spec_loadMap example_env ''map.vxblx'' kMerge [(0, 0, 0)] example_server"
  proof
    assume "?code = spec_loadMap example_env ''map.vxblx'' kMerge [(0, 0, 0)] example_server"
    then have "tsdf_layer (snd ?code) (0, 0, 0) =
        tsdf_layer (snd (spec_loadMap example_env ''map.vxblx'' kMerge [(0, 0, 0)] example_server))
          (0, 0, 0)"
      by simp
    then show False
      by (simp add: example_loadMapCallback example_spec_loadMap)
  qed
  moreover
  have "?code \<noteq> spec_loadMap example_env ''map.vxblx'' kReplace [(0, 0, 0)] example_server"
  proof
    assume "?code = spec_loadMap example_env ''map.vxblx'' kReplace [(0, 0, 0)] example_server"
    then have "tsdf_layer (snd ?code) (0, 0, 0) =
        tsdf_layer (snd (spec_loadMap example_env ''map.vxblx'' kReplace [(0, 0, 0)] example_server))
          (0, 0, 0)"
      by simp
    then show False
      by (simp add: example_loadMapCallback example_spec_loadMap)
  qed
  ultimately show ?thesis
    by (simp add: example_loadMapCallback example_spec_loadMap)
qed

section \<open>Idempotence of the full mesh cycle\<close>

text \<open>
  The two passes of the modelled extractor with \<^verbatim>\<open>clear_updated_flag\<close> set: a full pass
  meshes every allocated block and an incremental pass the dirty ones; both leave no
  dirty flag on a block they meshed, and none changes the voxel data.
\<close>

lemma MeshIntegrator_full_pass:
  "MeshIntegrator_generateMesh surface False True layer mesh =
     ((\<lambda>i. map_option (\<lambda>b. b\<lparr>updated := False\<rparr>) (layer i)),
      (\<lambda>i. case layer i of None \<Rightarrow> mesh i
                          | Some b \<Rightarrow> Some (surface (voxel_content layer) i)))"
  by (auto simp: MeshIntegrator_generateMesh_def pass_includes_def fun_eq_iff
        split: option.split)

lemma MeshIntegrator_incremental_pass:
  "MeshIntegrator_generateMesh surface True True layer mesh =
     ((\<lambda>i. map_option (\<lambda>b. b\<lparr>updated := False\<rparr>) (layer i)),
      (\<lambda>i. case layer i of None \<Rightarrow> mesh i
                          | Some b \<Rightarrow> if updated b then Some (surface (voxel_content layer) i)
                                      else mesh i))"
  by (auto simp: MeshIntegrator_generateMesh_def pass_includes_def fun_eq_iff
        split: option.split)

lemma voxel_content_clear_flags:
  "voxel_content (\<lambda>i. map_option (\<lambda>b. b\<lparr>updated := False\<rparr>) (layer i)) = voxel_content layer"
  by (simp add: voxel_content_def fun_eq_iff option.map_comp comp_def)

text \<open>
  Claim C9. With the mesh extractor as the specification describes it, running the full
  mesh cycle twice in succession, with nothing changing the map in between, gives the
  same mesh layer as running it once; the voxel data of the map is untouched by both.
\<close>

theorem full_mesh_cycle_idempotent:
  assumes "mesh_integrator_generateMesh env = MeshIntegrator_generateMesh surface"
  shows "mesh_layer (snd (generateMesh env (snd (generateMesh env s)))) =
           mesh_layer (snd (generateMesh env s)) \<and>
         voxel_content (tsdf_layer (snd (generateMesh env (snd (generateMesh env s))))) =
           voxel_content (tsdf_layer s)"
  by (auto simp: generateMesh_eq assms MeshIntegrator_full_pass voxel_content_clear_flags
        fun_eq_iff split: option.split)

theorem full_mesh_cycle_idempotent_witness:
  "mesh_integrator_generateMesh example_env = MeshIntegrator_generateMesh example_surface \<and>
   mesh_layer (snd (generateMesh example_env (snd (generateMesh example_env example_server)))) =
     mesh_layer (snd (generateMesh example_env example_server)) \<and>
   mesh_layer (snd (generateMesh example_env example_server)) (0, 0, 0) = Some 6"
proof -
  have h: "mesh_integrator_generateMesh example_env = MeshIntegrator_generateMesh example_surface"
    by (simp add: example_env_def)
  have v: "mesh_layer (snd (generateMesh example_env example_server)) (0, 0, 0) = Some 6"
    by (simp add: generateMesh_eq h MeshIntegrator_full_pass example_server_def
          example_surface_def voxel_content_def)
  from h v full_mesh_cycle_idempotent [OF h, of example_server] show ?thesis
    by blast
qed

section \<open>Clearing\<close>

text \<open>
  Claim C10. \<^verbatim>\<open>clear\<close> changes the TSDF layer and the mesh layer and nothing else: both
  watermarks, every configuration field, the integrator's own state and the record of
  calls are as before. With the two container operations as modelled, the map has no
  allocated block and the mesh layer is empty afterwards.
\<close>

theorem clear_empties_map_and_mesh:
  "clear env s =
     s\<lparr>tsdf_layer := layer_removeAllBlocks env (tsdf_layer s),
       mesh_layer := mesh_layer_clear env (mesh_layer s)\<rparr> \<and>
   last_msg_time (clear env s) = last_msg_time s \<and>
   last_msg_time_freespace (clear env s) = last_msg_time_freespace s \<and>
   tsdf_integrator (clear env s) = tsdf_integrator s \<and>
   calls (clear env s) = calls s \<and>
   (verbose (clear env s), world_frame (clear env s), use_freespace_pointcloud (clear env s),
    publish_tsdf_info (clear env s), publish_slices (clear env s),
    min_time_between_msgs (clear env s), mesh_filename (clear env s), color_mode (clear env s)) =
   (verbose s, world_frame s, use_freespace_pointcloud s, publish_tsdf_info s, publish_slices s,
    min_time_between_msgs s, mesh_filename s, color_mode s) \<and>
   (layer_removeAllBlocks env = Layer_removeAllBlocks \<and> mesh_layer_clear env = MeshLayer_clear \<longrightarrow>
      tsdf_layer (clear env s) = Map.empty \<and> dom (tsdf_layer (clear env s)) = {} \<and>
      mesh_layer (clear env s) = Map.empty \<and> dom (mesh_layer (clear env s)) = {})"
  by (simp add: clear_def Let_def Layer_removeAllBlocks_def MeshLayer_clear_def)

theorem clear_empties_map_and_mesh_witness:
  "layer_removeAllBlocks example_env = Layer_removeAllBlocks \<and>
   mesh_layer_clear example_env = MeshLayer_clear \<and>
   tsdf_layer example_server (0, 0, 0) \<noteq> None \<and>
   tsdf_layer (clear example_env example_server) = Map.empty \<and>
   mesh_layer (clear example_env example_server) = Map.empty \<and>
   last_msg_time (clear example_env example_server) = last_msg_time example_server"
proof -
  have h: "layer_removeAllBlocks example_env = Layer_removeAllBlocks"
    "mesh_layer_clear example_env = MeshLayer_clear"
    by (simp_all add: example_env_def)
  have b: "tsdf_layer example_server (0, 0, 0) \<noteq> None"
    by (simp add: example_server_def)
  from h b clear_empties_map_and_mesh [where env = example_env and s = example_server]
  show ?thesis by blast
qed

end
